theory Spec2Isabelle
  imports Main "HOL-Library.Sublist"
begin

section \<open>The tooltip directive of src/tooltip/tooltip.ts\<close>

text \<open>
  The directive \<open>NgbTooltip\<close> is a class with mutable fields whose methods call into
  collaborators that are injected or imported: the renderer, the document, the popup
  service, the positioning object, the zone, \<open>listenToTriggers\<close> and \<open>ngbAutoClose\<close>.
  The embedding is a record of the fields, one state transformer per method, and a log of
  the calls the directive makes on its collaborators, in the order the source makes them.
  Callbacks the source hands out (the promise continuation, the subscriptions) are
  counted as pending in the record and run by functions of their own.
\<close>

subsection \<open>Values\<close>

text \<open>A DOM element is known by its identity only.\<close>

type_synonym element = nat

text \<open>
  The input \<open>ngbTooltip: string | TemplateRef<any> | null | undefined\<close>. A template
  reference is an object, known by its identity.
\<close>

datatype tooltip_content = Undefined | Null | Str string | TemplateRef nat

text \<open>
  What \<open>!value\<close> and \<open>this._ngbTooltip &&\<close> test: \<open>undefined\<close>, \<open>null\<close> and the
  empty string are falsy, every other string and every object is truthy.
\<close>

fun truthy :: "tooltip_content \<Rightarrow> bool" where
  "truthy Undefined = False"
| "truthy Null = False"
| "truthy (Str s) = (s \<noteq> [])"
| "truthy (TemplateRef r) = True"

text \<open>The input \<open>autoClose: boolean | 'inside' | 'outside'\<close>.\<close>

datatype autoClose_mode = AutoCloseBool bool | Inside | Outside

text \<open>The input \<open>positionTarget?: string | HTMLElement\<close>.\<close>

datatype position_target = NoTarget | Selector string | TargetElement element

text \<open>
  The inputs \<open>openDelay\<close> and \<open>closeDelay\<close> are declared \<open>number\<close>, and a template
  can bind a string to them; \<open>ngOnInit\<close> applies the unary plus to both. On a number
  the unary plus is the identity; on a string it is the language's string-to-number
  conversion, which is kept as a constructor here and not computed. Delays are whole
  milliseconds.
\<close>

datatype js_value = NumberValue int | StringValue string

datatype js_number = Number int | StringToNumber string

fun unary_plus :: "js_value \<Rightarrow> js_number" where
  "unary_plus (NumberValue n) = Number n"
| "unary_plus (StringValue s) = StringToNumber s"

text \<open>The optional argument \<open>context?: any\<close> of \<open>open\<close>; \<open>None\<close> is \<open>undefined\<close>.\<close>

type_synonym open_context = "string option"

text \<open>\<open>Partial<Options>\<close> of the positioning library, as a list of settings.\<close>

type_synonym popper_options = "(string \<times> string) list"

subsection \<open>The popup window component\<close>

text \<open>
  \<open>class NgbTooltipWindow\<close> has three inputs, all unset when the component is created.
  \<open>ComponentRef\<close> is the reference the popup service returns: the component instance
  and the native element of its \<open>location\<close>.
\<close>

record NgbTooltipWindow =
  window_animation :: "bool option"
  window_id :: "string option"
  window_tooltipClass :: "string option"

record ComponentRef =
  nativeElement :: element
  componentInstance :: NgbTooltipWindow

subsection \<open>Collaborators that are not among the sources\<close>

text \<open>
  The popup service (util/popup.ts) is not among the sources, so it is a parameter of
  the model. What the directive needs of it: \<open>open\<close> returns a window reference and an
  observable \<open>transition$\<close>, \<open>close\<close> returns an observable. An observable either emits
  while \<open>subscribe\<close> runs or at some later moment; which of the two, for a given
  animation flag, is the parameter. \<open>windowElement k\<close> is the native element of the
  \<open>k\<close>-th window the service creates, \<open>created\<close> counts them.
\<close>

datatype emission = OnSubscribe | Later

record PopupService =
  windowElement :: "nat \<Rightarrow> element"
  created :: nat
  openEmits :: "bool \<Rightarrow> emission"
  closeEmits :: "bool \<Rightarrow> emission"

definition popupService_open :: "PopupService \<Rightarrow> ComponentRef \<times> PopupService" where
  "popupService_open ps =
     (\<lparr>nativeElement = windowElement ps (created ps),
       componentInstance = \<lparr>window_animation = None, window_id = None,
                            window_tooltipClass = None\<rparr>\<rparr>,
      ps\<lparr>created := Suc (created ps)\<rparr>)"

text \<open>
  \<open>NgbTooltipConfig\<close> (tooltip-config.ts) is not among the sources either; the
  constructor reads these ten fields of it.
\<close>

record NgbTooltipConfig =
  config_animation :: bool
  config_autoClose :: autoClose_mode
  config_placement :: "string list"
  config_popperOptions :: "popper_options \<Rightarrow> popper_options"
  config_triggers :: string
  config_container :: string
  config_disableTooltip :: bool
  config_tooltipClass :: string
  config_openDelay :: js_value
  config_closeDelay :: js_value

subsection \<open>The calls the directive makes\<close>

text \<open>
  The two event emitters of the directive, and the callbacks it hands out: the bound
  methods \<open>this.isOpen.bind(this)\<close>, \<open>this.open.bind(this)\<close> and
  \<open>this.close.bind(this)\<close> that go to \<open>listenToTriggers\<close>, and the arrow function
  \<open>() => this.close()\<close> that goes to \<open>ngbAutoClose\<close>.
\<close>

datatype emitter = Shown | Hidden

datatype handler = BoundIsOpen | BoundOpen | BoundClose | CallsClose

text \<open>
  One constructor per call on a collaborator, with the arguments the source passes
  (the zone, the renderer and the document themselves are left out of the arguments).
\<close>

datatype effect =
    PopupOpen tooltip_content open_context bool
  | PopupClose bool
  | SetAttribute element string string
  | RemoveAttribute element string
  | AppendChild element element
  | DetectChanges element
  | MarkForCheck element
  | CreatePopper element element "string list" bool string "popper_options \<Rightarrow> popper_options"
  | PositioningUpdate
  | PositioningDestroy
  | NgbAutoClose autoClose_mode handler emitter "element list"
  | Emit emitter
  | ChangeDetectorMarkForCheck
  | ListenToTriggers element string handler handler handler js_number js_number
  | UnregisterListeners nat

subsection \<open>The directive\<close>

text \<open>
  The fields of \<open>class NgbTooltip\<close>, without the leading underscore of the private
  ones. \<open>document\<close> is the injected document, as its \<open>querySelector\<close>; the native
  element of \<open>_elementRef\<close> is \<open>hostElement\<close>. The last six fields are not fields of the
  class: they hold what the class leaves with its collaborators, namely the log of calls,
  the promise continuations not yet run, the live subscriptions to \<open>onStable\<close> and
  the number the next one gets, the subscriptions to \<open>transition$\<close> and to the close
  observable that have not been called back, and the number of calls of
  \<open>listenToTriggers\<close>.
\<close>

record NgbTooltip =
  animation :: bool
  autoClose :: autoClose_mode
  placement :: "string list"
  popperOptions :: "popper_options \<Rightarrow> popper_options"
  triggers :: string
  positionTarget :: position_target
  container :: string
  disableTooltip :: bool
  tooltipClass :: string
  openDelay :: js_value
  closeDelay :: js_value
  ngbTooltip :: tooltip_content
  ngbTooltipWindowId :: string
  popupService :: PopupService
  windowRef :: "ComponentRef option"
  unregisterListenersFn :: "nat option"
  zoneSubscription :: "nat option"
  hostElement :: element
  document :: "string \<Rightarrow> element option"
  effects :: "effect list"
  microtasks :: nat
  onStable :: "nat list"
  nextSubscription :: nat
  pendingShown :: nat
  pendingClose :: nat
  registrations :: nat

text \<open>
  A method returns normally or throws; the fields keep what was assigned before the
  throw. The one throw in the source's own expressions is the member access on
  \<open>null\<close> in \<open>open\<close>, when \<open>querySelector\<close> finds no element for the container.
\<close>

datatype error = TypeError

datatype completion = Normal NgbTooltip | Throw error NgbTooltip

fun state_of :: "completion \<Rightarrow> NgbTooltip" where
  "state_of (Normal t) = t"
| "state_of (Throw e t) = t"


definition log :: "effect \<Rightarrow> NgbTooltip \<Rightarrow> NgbTooltip" where
  "log e t = t\<lparr>effects := effects t @ [e]\<rparr>"

text \<open>
  The identifier of the window is \<open>`ngb-tooltip-${nextId++}`\<close>: the decimal numeral of
  a counter shared by all directives.
\<close>

fun decimal :: "nat \<Rightarrow> string" where
  "decimal n =
     (if n < 10 then [char_of (48 + n)]
      else decimal (n div 10) @ [char_of (48 + n mod 10)])"

text \<open>The constructor: the new directive and the counter after \<open>nextId++\<close>.\<close>

definition NgbTooltip_new ::
  "element \<Rightarrow> NgbTooltipConfig \<Rightarrow> (string \<Rightarrow> element option) \<Rightarrow> PopupService \<Rightarrow> nat
     \<Rightarrow> NgbTooltip \<times> nat" where
  "NgbTooltip_new host config doc ps nextId =
     (\<lparr>animation = config_animation config,
       autoClose = config_autoClose config,
       placement = config_placement config,
       popperOptions = config_popperOptions config,
       triggers = config_triggers config,
       positionTarget = NoTarget,
       container = config_container config,
       disableTooltip = config_disableTooltip config,
       tooltipClass = config_tooltipClass config,
       openDelay = config_openDelay config,
       closeDelay = config_closeDelay config,
       ngbTooltip = Undefined,
       ngbTooltipWindowId = ''ngb-tooltip-'' @ decimal nextId,
       popupService = ps,
       windowRef = None,
       unregisterListenersFn = None,
       zoneSubscription = None,
       hostElement = host,
       document = doc,
       effects = [],
       microtasks = 0,
       onStable = [],
       nextSubscription = 0,
       pendingShown = 0,
       pendingClose = 0,
       registrations = 0\<rparr>,
      Suc nextId)"

text \<open>
  \<open>_getPositionTargetElement\<close>: the element a selector finds, or the element given,
  and the host element when that is \<open>null\<close> or \<open>undefined\<close>. The document parameter
  answers every selector with an element or with \<open>null\<close>.
\<close>

definition getPositionTargetElement :: "NgbTooltip \<Rightarrow> element" where
  "getPositionTargetElement t =
     (case (case positionTarget t of
              NoTarget \<Rightarrow> None
            | Selector sel \<Rightarrow> document t sel
            | TargetElement e \<Rightarrow> Some e) of
        None \<Rightarrow> hostElement t
      | Some e \<Rightarrow> e)"

definition isOpen :: "NgbTooltip \<Rightarrow> bool" where
  "isOpen t = (windowRef t \<noteq> None)"

subsection \<open>Closing\<close>

text \<open>
  The function \<open>close\<close> subscribes to the close observable. It sets the reference to
  \<open>null\<close>, destroys the positioning, unsubscribes \<open>_zoneSubscription\<close> when there is one
  (\<open>?.\<close>), emits \<open>hidden\<close> and marks the change detector.
\<close>

definition unsubscribe :: "nat \<Rightarrow> NgbTooltip \<Rightarrow> NgbTooltip" where
  "unsubscribe n t = t\<lparr>onStable := removeAll n (onStable t)\<rparr>"

definition close_callback :: "NgbTooltip \<Rightarrow> NgbTooltip" where
  "close_callback t =
     (let t1 = log PositioningDestroy (t\<lparr>windowRef := None\<rparr>);
          t2 = (case zoneSubscription t1 of None \<Rightarrow> t1 | Some n \<Rightarrow> unsubscribe n t1)
      in log ChangeDetectorMarkForCheck (log (Emit Hidden) t2))"

text \<open>
  \<open>close(animation = this.animation)\<close>: the argument \<open>None\<close> is the omitted one,
  for which the parameter takes the directive's animation flag. When the close observable
  emits during \<open>subscribe\<close> the callback runs inside \<open>close\<close>; otherwise it is
  pending.
\<close>

definition close_animation :: "bool option \<Rightarrow> NgbTooltip \<Rightarrow> bool" where
  "close_animation a t = (case a of None \<Rightarrow> animation t | Some b \<Rightarrow> b)"

definition close :: "bool option \<Rightarrow> NgbTooltip \<Rightarrow> completion" where
  "close a t =
     (if windowRef t \<noteq> None then
        let t1 = log (RemoveAttribute (getPositionTargetElement t) ''aria-describedby'') t;
            t2 = log (PopupClose (close_animation a t)) t1
        in Normal (case closeEmits (popupService t2) (close_animation a t) of
                     OnSubscribe \<Rightarrow> close_callback t2
                   | Later \<Rightarrow> t2\<lparr>pendingClose := Suc (pendingClose t2)\<rparr>)
      else Normal t)"

text \<open>The close observable emits later: one pending callback runs.\<close>

definition close_emits :: "NgbTooltip \<Rightarrow> NgbTooltip" where
  "close_emits t =
     (if pendingClose t = 0 then t
      else close_callback (t\<lparr>pendingClose := pendingClose t - 1\<rparr>))"

subsection \<open>Opening\<close>

text \<open>
  Lines 229 to 235 of \<open>open\<close>: the window is created, its three inputs are set, and
  the attribute is set on the position target.
\<close>

definition setInputs :: "NgbTooltip \<Rightarrow> ComponentRef \<Rightarrow> ComponentRef" where
  "setInputs t w =
     w\<lparr>componentInstance :=
         \<lparr>window_animation = Some (animation t),
          window_id = Some (ngbTooltipWindowId t),
          window_tooltipClass = Some (tooltipClass t)\<rparr>\<rparr>"

definition open_window :: "open_context \<Rightarrow> NgbTooltip \<Rightarrow> ComponentRef \<times> NgbTooltip" where
  "open_window ctx t =
     (let (w0, ps) = popupService_open (popupService t);
          t1 = log (PopupOpen (ngbTooltip t) ctx (animation t)) (t\<lparr>popupService := ps\<rparr>);
          w = setInputs t1 w0;
          t2 = t1\<lparr>windowRef := Some w\<rparr>
      in (w, log (SetAttribute (getPositionTargetElement t2) ''aria-describedby''
                    (ngbTooltipWindowId t2)) t2))"

text \<open>
  Lines 244 to 275, for the window \<open>w\<close>: change detection, the popper and the promise
  whose continuation is queued, \<open>ngbAutoClose\<close>, and the subscription to
  \<open>transition$\<close>, whose callback emits \<open>shown\<close>.
\<close>

definition open_position :: "ComponentRef \<Rightarrow> NgbTooltip \<Rightarrow> NgbTooltip" where
  "open_position w t =
     (let t1 = log (MarkForCheck (nativeElement w)) (log (DetectChanges (nativeElement w)) t);
          t2 = log (CreatePopper (getPositionTargetElement t1) (nativeElement w) (placement t1)
                      (container t1 = ''body'') ''bs-tooltip'' (popperOptions t1)) t1;
          t3 = t2\<lparr>microtasks := Suc (microtasks t2)\<rparr>;
          t4 = log (NgbAutoClose (autoClose t3) CallsClose Hidden [nativeElement w]) t3
      in case openEmits (popupService t4) (animation t4) of
           OnSubscribe \<Rightarrow> log (Emit Shown) t4
         | Later \<Rightarrow> t4\<lparr>pendingShown := Suc (pendingShown t4)\<rparr>)"

text \<open>
  \<open>open(context?)\<close>. Lines 237 to 239 append the window to the element the document
  finds for the container, only when the container is \<open>'body'\<close>; the member access
  throws when the document finds none.
\<close>

definition "open" :: "open_context \<Rightarrow> NgbTooltip \<Rightarrow> completion" where
  "open ctx t =
     (if windowRef t = None \<and> truthy (ngbTooltip t) \<and> \<not> disableTooltip t then
        let (w, t1) = open_window ctx t in
        if container t1 = ''body'' then
          (case document t1 (container t1) of
             None \<Rightarrow> Throw TypeError t1
           | Some parent \<Rightarrow>
               Normal (open_position w (log (AppendChild parent (nativeElement w)) t1)))
        else Normal (open_position w t1)
      else Normal t)"

text \<open>
  The continuation of \<open>Promise.resolve()\<close>: one positioning update, then the
  subscription to \<open>onStable\<close>, kept in \<open>_zoneSubscription\<close>.
\<close>

definition microtask_runs :: "NgbTooltip \<Rightarrow> NgbTooltip" where
  "microtask_runs t =
     (if microtasks t = 0 then t
      else
        let t1 = log PositioningUpdate (t\<lparr>microtasks := microtasks t - 1\<rparr>);
            n = nextSubscription t1
        in t1\<lparr>zoneSubscription := Some n, onStable := onStable t1 @ [n],
               nextSubscription := Suc n\<rparr>)"

text \<open>\<open>onStable\<close> emits: every live subscription updates the positioning.\<close>

definition zone_stable :: "NgbTooltip \<Rightarrow> NgbTooltip" where
  "zone_stable t = t\<lparr>effects := effects t @ map (\<lambda>n. PositioningUpdate) (onStable t)\<rparr>"

text \<open>\<open>transition$\<close> emits later: one pending callback emits \<open>shown\<close>.\<close>

definition transition_emits :: "NgbTooltip \<Rightarrow> NgbTooltip" where
  "transition_emits t =
     (if pendingShown t = 0 then t
      else log (Emit Shown) (t\<lparr>pendingShown := pendingShown t - 1\<rparr>))"

subsection \<open>The other methods\<close>

definition toggle :: "NgbTooltip \<Rightarrow> completion" where
  "toggle t = (if windowRef t \<noteq> None then close None t else open None t)"

text \<open>The setter of the input \<open>ngbTooltip\<close>.\<close>

definition set_ngbTooltip :: "tooltip_content \<Rightarrow> NgbTooltip \<Rightarrow> completion" where
  "set_ngbTooltip v t =
     (let t1 = t\<lparr>ngbTooltip := v\<rparr> in
      if \<not> truthy v \<and> windowRef t1 \<noteq> None then close None t1 else Normal t1)"

text \<open>
  \<open>ngOnInit\<close> keeps what \<open>listenToTriggers\<close> returns, the function that unregisters
  the listeners, known here by the number of the registration.
\<close>

definition ngOnInit :: "NgbTooltip \<Rightarrow> completion" where
  "ngOnInit t =
     (let t1 = log (ListenToTriggers (hostElement t) (triggers t)
                      BoundIsOpen BoundOpen BoundClose
                      (unary_plus (openDelay t)) (unary_plus (closeDelay t))) t
      in Normal (t1\<lparr>unregisterListenersFn := Some (registrations t1),
                     registrations := Suc (registrations t1)\<rparr>))"

text \<open>
  \<open>ngOnChanges({ tooltipClass })\<close>: the argument is the current value of the change of
  \<open>tooltipClass\<close>, \<open>None\<close> when the changes hold none.
\<close>

definition ngOnChanges :: "string option \<Rightarrow> NgbTooltip \<Rightarrow> completion" where
  "ngOnChanges change t =
     (case (change, windowRef t) of
        (Some v, Some w) \<Rightarrow>
          Normal (t\<lparr>windowRef :=
                      Some (w\<lparr>componentInstance :=
                                (componentInstance w)\<lparr>window_tooltipClass := Some v\<rparr>\<rparr>)\<rparr>)
      | _ \<Rightarrow> Normal t)"

text \<open>
  \<open>ngOnDestroy\<close>: \<open>close(false)\<close>, then the function that unregisters the listeners
  when there is one (\<open>?.()\<close>).
\<close>

definition ngOnDestroy :: "NgbTooltip \<Rightarrow> completion" where
  "ngOnDestroy t =
     (case close (Some False) t of
        Throw e t1 \<Rightarrow> Throw e t1
      | Normal t1 \<Rightarrow>
          (case unregisterListenersFn t1 of
             None \<Rightarrow> Normal t1
           | Some r \<Rightarrow> Normal (log (UnregisterListeners r) t1)))"

subsection \<open>Runs\<close>

text \<open>
  What can happen to a directive: a method is called (by the application, by a trigger
  listener or by the auto-close handler), the framework assigns an input, or one of the
  callbacks the directive has handed out is run. An exception ends the call and leaves
  the fields as they are. A run lists the events in the order in which they happen. The
  step function accepts every order; in the browser a promise continuation runs when the
  turn that queued it has ended, before \<open>onStable\<close> and before any observable that
  emits later.
\<close>

datatype input =
    Input_animation bool
  | Input_autoClose autoClose_mode
  | Input_placement "string list"
  | Input_popperOptions "popper_options \<Rightarrow> popper_options"
  | Input_triggers string
  | Input_positionTarget position_target
  | Input_container string
  | Input_disableTooltip bool
  | Input_tooltipClass string
  | Input_openDelay js_value
  | Input_closeDelay js_value

fun assign :: "input \<Rightarrow> NgbTooltip \<Rightarrow> NgbTooltip" where
  "assign (Input_animation v) t = t\<lparr>animation := v\<rparr>"
| "assign (Input_autoClose v) t = t\<lparr>autoClose := v\<rparr>"
| "assign (Input_placement v) t = t\<lparr>placement := v\<rparr>"
| "assign (Input_popperOptions v) t = t\<lparr>popperOptions := v\<rparr>"
| "assign (Input_triggers v) t = t\<lparr>triggers := v\<rparr>"
| "assign (Input_positionTarget v) t = t\<lparr>positionTarget := v\<rparr>"
| "assign (Input_container v) t = t\<lparr>container := v\<rparr>"
| "assign (Input_disableTooltip v) t = t\<lparr>disableTooltip := v\<rparr>"
| "assign (Input_tooltipClass v) t = t\<lparr>tooltipClass := v\<rparr>"
| "assign (Input_openDelay v) t = t\<lparr>openDelay := v\<rparr>"
| "assign (Input_closeDelay v) t = t\<lparr>closeDelay := v\<rparr>"

datatype event =
    CallOpen open_context
  | CallClose "bool option"
  | CallToggle
  | SetNgbTooltip tooltip_content
  | CallNgOnInit
  | CallNgOnChanges "string option"
  | CallNgOnDestroy
  | Assign input
  | MicrotaskRuns
  | ZoneStable
  | TransitionEmits
  | CloseEmits

fun step :: "NgbTooltip \<Rightarrow> event \<Rightarrow> NgbTooltip" where
  "step t (CallOpen ctx) = state_of (open ctx t)"
| "step t (CallClose a) = state_of (close a t)"
| "step t CallToggle = state_of (toggle t)"
| "step t (SetNgbTooltip v) = state_of (set_ngbTooltip v t)"
| "step t CallNgOnInit = state_of (ngOnInit t)"
| "step t (CallNgOnChanges c) = state_of (ngOnChanges c t)"
| "step t CallNgOnDestroy = state_of (ngOnDestroy t)"
| "step t (Assign i) = assign i t"
| "step t MicrotaskRuns = microtask_runs t"
| "step t ZoneStable = zone_stable t"
| "step t TransitionEmits = transition_emits t"
| "step t CloseEmits = close_emits t"

definition run :: "NgbTooltip \<Rightarrow> event list \<Rightarrow> NgbTooltip" where
  "run t es = foldl step t es"

subsection \<open>Observations\<close>

text \<open>The calls made on the way from \<open>t\<close> to \<open>t'\<close>: what the log has gained.\<close>

definition new_effects :: "NgbTooltip \<Rightarrow> NgbTooltip \<Rightarrow> effect list" where
  "new_effects t t' = drop (length (effects t)) (effects t')"



text \<open>
  The state in which the close observable of a call \<open>close(anim)\<close> has emitted: the
  state after the call when it emits during \<open>subscribe\<close>, and the state after the
  pending callback otherwise.
\<close>

definition when_closed :: "bool \<Rightarrow> NgbTooltip \<Rightarrow> NgbTooltip" where
  "when_closed anim t =
     (case closeEmits (popupService t) anim of OnSubscribe \<Rightarrow> t | Later \<Rightarrow> close_emits t)"

text \<open>
  The number of windows the directive has asked the popup service for, and the number of
  times it has emitted \<open>hidden\<close>, that is, of close callbacks it has run.
\<close>

fun is_PopupOpen :: "effect \<Rightarrow> bool" where
  "is_PopupOpen (PopupOpen c x a) = True"
| "is_PopupOpen e = False"

fun is_hidden :: "effect \<Rightarrow> bool" where
  "is_hidden (Emit Hidden) = True"
| "is_hidden e = False"

definition opened :: "NgbTooltip \<Rightarrow> nat" where
  "opened t = length (filter is_PopupOpen (effects t))"

definition closed :: "NgbTooltip \<Rightarrow> nat" where
  "closed t = length (filter is_hidden (effects t))"

text \<open>
  At most one window at a time, as the directive can count it: the windows asked for are
  at most one more than the close callbacks run, and no more than the close callbacks
  run when the window reference is \<open>null\<close>. A close callback is what the close
  observable of the popup service calls when it emits.
\<close>

definition single_window :: "NgbTooltip \<Rightarrow> bool" where
  "single_window t = (opened t \<le> closed t + (if windowRef t = None then 0 else 1))"

subsection \<open>A directive to run\<close>

text \<open>
  A host element 7 in a document whose body is element 1, a configuration with animation
  switched on and no container, and a popup service whose observables emit during
  \<open>subscribe\<close> exactly when there is no animation to wait for. \<open>tooltip\<close> is the
  first directive constructed, with the content \<open>'Hi'\<close> assigned; \<open>tooltip_open\<close> is
  that directive after \<open>open()\<close>.
\<close>

definition demoConfig :: NgbTooltipConfig where
  "demoConfig =
     \<lparr>config_animation = True, config_autoClose = AutoCloseBool True,
      config_placement = [''auto''], config_popperOptions = (\<lambda>options. options),
      config_triggers = ''hover focus'', config_container = [],
      config_disableTooltip = False, config_tooltipClass = [],
      config_openDelay = NumberValue 0, config_closeDelay = NumberValue 0\<rparr>"

definition demoDocument :: "string \<Rightarrow> element option" where
  "demoDocument selector = (if selector = ''body'' then Some 1 else None)"

definition demoPopupService :: PopupService where
  "demoPopupService =
     \<lparr>windowElement = (\<lambda>k. 100 + k), created = 0,
      openEmits = (\<lambda>a. if a then Later else OnSubscribe),
      closeEmits = (\<lambda>a. if a then Later else OnSubscribe)\<rparr>"

definition tooltip :: NgbTooltip where
  "tooltip =
     state_of (set_ngbTooltip (Str ''Hi'')
       (fst (NgbTooltip_new 7 demoConfig demoDocument demoPopupService 0)))"

definition tooltip_open :: NgbTooltip where
  "tooltip_open = state_of (open None tooltip)"

section \<open>Properties\<close>

subsection \<open>Evaluating the directive to run\<close>

lemma decimal_zero: "decimal 0 = ''0''"
  by code_simp

declare decimal.simps [simp del]

lemmas fixture_defs = tooltip_def demoPopupService_def demoDocument_def demoConfig_def
  NgbTooltip_new_def set_ngbTooltip_def decimal_zero

text \<open>The position target depends on three fields only.\<close>

lemma target_frame [simp]:
  "getPositionTargetElement (t\<lparr>effects := es\<rparr>) = getPositionTargetElement t"
  "getPositionTargetElement (t\<lparr>windowRef := w\<rparr>) = getPositionTargetElement t"
  "getPositionTargetElement (t\<lparr>popupService := ps\<rparr>) = getPositionTargetElement t"
  "getPositionTargetElement (t\<lparr>ngbTooltip := v\<rparr>) = getPositionTargetElement t"
  "getPositionTargetElement (t\<lparr>microtasks := m\<rparr>) = getPositionTargetElement t"
  "getPositionTargetElement (t\<lparr>pendingShown := m\<rparr>) = getPositionTargetElement t"
  "getPositionTargetElement (t\<lparr>pendingClose := m\<rparr>) = getPositionTargetElement t"
  "getPositionTargetElement (t\<lparr>onStable := ns\<rparr>) = getPositionTargetElement t"
  "getPositionTargetElement (t\<lparr>zoneSubscription := z\<rparr>) = getPositionTargetElement t"
  "getPositionTargetElement (t\<lparr>nextSubscription := m\<rparr>) = getPositionTargetElement t"
  by (simp_all add: getPositionTargetElement_def split: position_target.split option.split)

lemmas step_defs = open_def open_window_def open_position_def popupService_open_def
  setInputs_def log_def close_def close_callback_def unsubscribe_def

lemma tooltip_fields:
  "windowRef tooltip = None" "ngbTooltip tooltip = Str ''Hi''" "disableTooltip tooltip = False"
  "animation tooltip = True" "unregisterListenersFn tooltip = None" "effects tooltip = []"
  "hostElement tooltip = 7" "ngbTooltipWindowId tooltip = ''ngb-tooltip-0''"
  by (simp_all add: fixture_defs)

lemma tooltip_open_fields:
  "windowRef tooltip_open =
     Some \<lparr>nativeElement = 100,
           componentInstance =
             \<lparr>window_animation = Some True, window_id = Some ''ngb-tooltip-0'',
              window_tooltipClass = Some []\<rparr>\<rparr>"
  "effects tooltip_open =
     [PopupOpen (Str ''Hi'') None True,
      SetAttribute 7 ''aria-describedby'' ''ngb-tooltip-0'', DetectChanges 100,
      MarkForCheck 100,
      CreatePopper 7 100 [''auto''] False ''bs-tooltip'' (\<lambda>options. options),
      NgbAutoClose (AutoCloseBool True) CallsClose Hidden [100]]"
  "microtasks tooltip_open = 1" "pendingShown tooltip_open = 1" "pendingClose tooltip_open = 0"
  "animation tooltip_open = True" "unregisterListenersFn tooltip_open = None"
  "open None tooltip = Normal tooltip_open"
  by (simp_all add: tooltip_open_def fixture_defs step_defs Let_def)
    (simp_all add: getPositionTargetElement_def)

lemma tooltip_target:
  "getPositionTargetElement tooltip = 7" "getPositionTargetElement tooltip_open = 7"
  by (simp_all add: tooltip_open_def fixture_defs step_defs Let_def)
    (simp_all add: getPositionTargetElement_def)

subsection \<open>What the methods leave alone\<close>

lemma close_animation_simps [simp]:
  "close_animation None t = animation t"
  "close_animation (Some b) t = b"
  by (simp_all add: close_animation_def)







subsection \<open>What opening and closing do\<close>





lemma close_completed:
  assumes "windowRef t \<noteq> None"
  shows "windowRef (when_closed (close_animation a t) (state_of (close a t))) = None"
    and "new_effects t (when_closed (close_animation a t) (state_of (close a t))) =
          [RemoveAttribute (getPositionTargetElement t) ''aria-describedby'',
           PopupClose (close_animation a t), PositioningDestroy, Emit Hidden,
           ChangeDetectorMarkForCheck]"
  using assms
  by (simp_all add: when_closed_def close_emits_def new_effects_def step_defs Let_def
      split: emission.split option.split)






subsection \<open>Counting windows\<close>

lemma open_counts:
  "opened (state_of (open ctx t)) =
     (if windowRef t = None \<and> truthy (ngbTooltip t) \<and> \<not> disableTooltip t
      then Suc (opened t) else opened t)"
  "closed (state_of (open ctx t)) = closed t"
  "(windowRef (state_of (open ctx t)) = None) =
     (windowRef t = None \<and> \<not> (truthy (ngbTooltip t) \<and> \<not> disableTooltip t))"
  by (auto simp add: opened_def closed_def step_defs Let_def split: emission.split option.split)

lemma close_callback_counts:
  "opened (close_callback t) = opened t"
  "closed (close_callback t) = Suc (closed t)"
  "windowRef (close_callback t) = None"
  by (simp_all add: opened_def closed_def step_defs Let_def split: option.split)

lemma log_counts:
  "opened (log e t) = (if is_PopupOpen e then Suc (opened t) else opened t)"
  "closed (log e t) = (if is_hidden e then Suc (closed t) else closed t)"
  "windowRef (log e t) = windowRef t"
  by (simp_all add: opened_def closed_def log_def)

lemma pending_counts:
  "opened (t\<lparr>pendingClose := n\<rparr>) = opened t"
  "closed (t\<lparr>pendingClose := n\<rparr>) = closed t"
  by (simp_all add: opened_def closed_def)

lemma close_single: "single_window t \<Longrightarrow> single_window (state_of (close a t))"
  by (auto simp add: single_window_def close_def Let_def close_callback_counts log_counts
      pending_counts split: emission.split if_splits)

lemma close_emits_single: "single_window t \<Longrightarrow> single_window (close_emits t)"
  by (auto simp add: single_window_def close_emits_def close_callback_counts pending_counts
      split: if_splits)

lemma open_single: "single_window t \<Longrightarrow> single_window (state_of (open ctx t))"
  using open_counts [where t = t and ctx = ctx]
  by (auto simp add: single_window_def split: if_splits)

lemma ngOnDestroy_single: "single_window t \<Longrightarrow> single_window (state_of (ngOnDestroy t))"
  using close_single [of t "Some False"]
  by (cases "close (Some False) t")
    (auto simp add: ngOnDestroy_def single_window_def log_counts split: option.split)

lemma step_single:
  assumes "single_window t"
  shows "single_window (step t e)"
proof (cases e)
  case (CallNgOnChanges c)
  then show ?thesis
    using assms
    by (auto simp add: ngOnChanges_def single_window_def opened_def closed_def split: option.split)
next
  case (Assign i)
  then show ?thesis
    using assms
    by (cases i) (simp_all add: single_window_def opened_def closed_def)
next
  case (SetNgbTooltip v)
  have "single_window (t\<lparr>ngbTooltip := v\<rparr>)"
    using assms by (simp add: single_window_def opened_def closed_def)
  then show ?thesis
    using SetNgbTooltip by (simp add: set_ngbTooltip_def Let_def close_single)
next
  case CallNgOnInit
  then show ?thesis
    using assms
    by (auto simp add: ngOnInit_def Let_def single_window_def log_def opened_def closed_def split: if_splits)
next
  case MicrotaskRuns
  then show ?thesis
    using assms
    by (auto simp add: microtask_runs_def Let_def single_window_def log_def opened_def closed_def split: if_splits)
next
  case ZoneStable
  then show ?thesis
    using assms
    by (auto simp add: zone_stable_def single_window_def opened_def closed_def split: if_splits)
next
  case TransitionEmits
  then show ?thesis
    using assms
    by (auto simp add: transition_emits_def single_window_def log_def opened_def closed_def split: if_splits)
qed (use assms in \<open>simp_all add: open_single close_single close_emits_single
  ngOnDestroy_single toggle_def set_ngbTooltip_def Let_def\<close>)

lemma run_single: "single_window t \<Longrightarrow> single_window (run t es)"
  unfolding run_def
  by (induction es arbitrary: t) (simp_all add: step_single)

lemma new_single: "single_window (fst (NgbTooltip_new host config doc ps k))"
  by (simp add: single_window_def opened_def closed_def NgbTooltip_new_def)

subsection \<open>The open state\<close>

text \<open>
  C1. In every state of the directive \<open>isOpen()\<close> is true exactly when the window
  reference is not \<open>null\<close>; \<open>toggle()\<close> is \<open>close()\<close> when there is a window and
  \<open>open()\<close> when there is none, both without an argument.
\<close>

theorem isOpen_toggle:
  "(isOpen t \<longleftrightarrow> windowRef t \<noteq> None) \<and>
   (windowRef t \<noteq> None \<longrightarrow> toggle t = close None t) \<and>
   (windowRef t = None \<longrightarrow> toggle t = open None t)"
  by (simp add: isOpen_def toggle_def)

theorem isOpen_toggle_witness:
  "windowRef tooltip = None \<and> \<not> isOpen tooltip \<and> toggle tooltip = open None tooltip \<and>
   windowRef tooltip_open \<noteq> None \<and> isOpen tooltip_open \<and>
   toggle tooltip_open = close None tooltip_open"
  using isOpen_toggle [of tooltip] isOpen_toggle [of tooltip_open]
  by (simp add: tooltip_fields tooltip_open_fields)

subsection \<open>One window\<close>

text \<open>
  C2. \<open>open\<close> on a directive that has a window returns normally and changes nothing.
  One call of \<open>open\<close> asks the popup service for at most one window, and for one only
  when the window reference is \<open>null\<close>. In every run of a new directive the windows
  asked for are at most one more than the close callbacks run, and no more than those
  while the window reference is \<open>null\<close>.
\<close>

theorem open_single_window:
  "(windowRef t \<noteq> None \<longrightarrow> open ctx t = Normal t) \<and>
   opened (state_of (open ctx t)) \<le> Suc (opened t) \<and>
   (opened (state_of (open ctx t)) \<noteq> opened t \<longrightarrow> windowRef t = None) \<and>
   single_window (run (fst (NgbTooltip_new host config doc ps k)) es)"
proof -
  have "windowRef t \<noteq> None \<longrightarrow> open ctx t = Normal t"
    by (simp add: open_def)
  moreover have "opened (state_of (open ctx t)) \<le> Suc (opened t)"
    "opened (state_of (open ctx t)) \<noteq> opened t \<longrightarrow> windowRef t = None"
    by (simp_all add: open_counts)
  moreover have "single_window (run (fst (NgbTooltip_new host config doc ps k)) es)"
    by (rule run_single) (rule new_single)
  ultimately show ?thesis by blast
qed

theorem open_single_window_witness:
  "windowRef tooltip_open \<noteq> None \<and> open (Some ''again'') tooltip_open = Normal tooltip_open \<and>
   opened tooltip = 0 \<and> opened tooltip_open = 1 \<and>
   opened (state_of (open (Some ''again'') tooltip_open)) = 1 \<and>
   single_window
     (run (fst (NgbTooltip_new 7 demoConfig demoDocument demoPopupService 0))
        [SetNgbTooltip (Str ''Hi''), CallOpen None, CallOpen None])"
proof -
  have is_open: "windowRef tooltip_open \<noteq> None"
    by (simp add: tooltip_open_fields)
  have counted: "opened tooltip = 0 \<and> opened tooltip_open = 1"
    by (simp add: opened_def tooltip_fields tooltip_open_fields)
  show ?thesis
    using open_single_window [of tooltip_open "Some ''again''" 7 demoConfig demoDocument
        demoPopupService 0 "[SetNgbTooltip (Str ''Hi''), CallOpen None, CallOpen None]"]
      is_open counted
    by auto
qed

subsection \<open>The attribute\<close>



subsection \<open>Creating and destroying the window\<close>



subsection \<open>Triggers and auto-close\<close>



subsection \<open>Closing what is not open\<close>

text \<open>
  C7. \<open>close\<close> on a directive whose window reference is \<open>null\<close> returns normally and
  leaves every field and the log of calls as they were: no attribute is removed, nothing
  is emitted, no callback is left pending.
\<close>

theorem close_without_window: "windowRef t = None \<Longrightarrow> close a t = Normal t"
  by (simp add: close_def)

theorem close_without_window_witness:
  "windowRef tooltip = None \<and> close None tooltip = Normal tooltip \<and>
   close (Some False) tooltip = Normal tooltip"
  using close_without_window [of tooltip None] close_without_window [of tooltip "Some False"]
  by (simp add: tooltip_fields)

subsection \<open>Opening what cannot open\<close>

text \<open>
  C8. When the content is falsy or the tooltip is disabled, \<open>open\<close> returns normally
  and leaves every field, the log of calls and the pending callbacks as they were: no
  window is created, no attribute is set, no popper is created, and no subscription that
  could emit \<open>shown\<close> is made.
\<close>

theorem open_without_content_or_disabled:
  "\<not> truthy (ngbTooltip t) \<or> disableTooltip t \<Longrightarrow> open ctx t = Normal t"
  by (auto simp add: open_def)

theorem open_without_content_or_disabled_witness:
  "\<not> truthy (ngbTooltip (tooltip\<lparr>ngbTooltip := Null\<rparr>)) \<and>
   open None (tooltip\<lparr>ngbTooltip := Null\<rparr>) = Normal (tooltip\<lparr>ngbTooltip := Null\<rparr>) \<and>
   \<not> truthy (ngbTooltip (tooltip\<lparr>ngbTooltip := Str []\<rparr>)) \<and>
   open None (tooltip\<lparr>ngbTooltip := Str []\<rparr>) = Normal (tooltip\<lparr>ngbTooltip := Str []\<rparr>) \<and>
   truthy (ngbTooltip (tooltip\<lparr>disableTooltip := True\<rparr>)) \<and>
   disableTooltip (tooltip\<lparr>disableTooltip := True\<rparr>) \<and>
   open None (tooltip\<lparr>disableTooltip := True\<rparr>) = Normal (tooltip\<lparr>disableTooltip := True\<rparr>)"
  using open_without_content_or_disabled [of "tooltip\<lparr>ngbTooltip := Null\<rparr>" None]
    open_without_content_or_disabled [of "tooltip\<lparr>ngbTooltip := Str []\<rparr>" None]
    open_without_content_or_disabled [of "tooltip\<lparr>disableTooltip := True\<rparr>" None]
  by (simp add: tooltip_fields)

subsection \<open>Assigning the content\<close>



subsection \<open>Destroying the directive\<close>



subsection \<open>The subscription to the zone\<close>

text \<open>
  The subscription to \<open>onStable\<close> is made by the promise continuation, after
  \<open>open\<close> has returned. When the continuation has run before the close callback does,
  the callback unsubscribes it: no subscription is live afterwards, \<open>onStable\<close> updates
  nothing any more, and no continuation is left to run.
\<close>

lemma removeAll_only: "set xs \<subseteq> {n} \<Longrightarrow> removeAll n xs = []"
  by (induction xs) auto

lemma subscribed_close_stops_updates:
  assumes "windowRef t \<noteq> None" "microtasks t = 0" "zoneSubscription t = Some n"
    and "set (onStable t) \<subseteq> {n}"
  shows "onStable (when_closed (close_animation a t) (state_of (close a t))) = []"
    and "PositioningDestroy \<in>
           set (new_effects t (when_closed (close_animation a t) (state_of (close a t))))"
    and "zone_stable (when_closed (close_animation a t) (state_of (close a t))) =
           when_closed (close_animation a t) (state_of (close a t))"
    and "microtask_runs (when_closed (close_animation a t) (state_of (close a t))) =
           when_closed (close_animation a t) (state_of (close a t))"
proof -
  obtain w where w: "windowRef t = Some w"
    using assms(1) by auto
  have gone: "removeAll n (onStable t) = []"
    using assms(4) by (simp add: removeAll_only)
  show unsubscribed: "onStable (when_closed (close_animation a t) (state_of (close a t))) = []"
    by (cases "closeEmits (popupService t) (close_animation a t)")
      (simp_all add: w assms(3) gone when_closed_def close_emits_def step_defs Let_def)
  show "zone_stable (when_closed (close_animation a t) (state_of (close a t))) =
           when_closed (close_animation a t) (state_of (close a t))"
    by (simp add: zone_stable_def unsubscribed)
  show "PositioningDestroy \<in>
          set (new_effects t (when_closed (close_animation a t) (state_of (close a t))))"
    using assms(1) by (simp add: close_completed)
  have "microtasks (when_closed (close_animation a t) (state_of (close a t))) = 0"
    by (cases "closeEmits (popupService t) (close_animation a t)")
      (simp_all add: w assms(2,3) when_closed_def close_emits_def step_defs Let_def)
  then show "microtask_runs (when_closed (close_animation a t) (state_of (close a t))) =
           when_closed (close_animation a t) (state_of (close a t))"
    by (simp add: microtask_runs_def)
qed

lemma tooltip_subscribed_fields:
  "windowRef (microtask_runs tooltip_open) \<noteq> None"
  "microtasks (microtask_runs tooltip_open) = 0"
  "zoneSubscription (microtask_runs tooltip_open) = Some 0"
  "onStable (microtask_runs tooltip_open) = [0]"
  by (simp_all add: microtask_runs_def log_def Let_def tooltip_open_fields)
    (simp_all add: tooltip_open_def fixture_defs step_defs Let_def)

lemma subscribed_close_stops_updates_example:
  "onStable (microtask_runs tooltip_open) = [0] \<and>
   onStable (when_closed False (state_of (close (Some False) (microtask_runs tooltip_open)))) = [] \<and>
   zone_stable (when_closed False (state_of (close (Some False) (microtask_runs tooltip_open)))) =
     when_closed False (state_of (close (Some False) (microtask_runs tooltip_open)))"
  using subscribed_close_stops_updates(1,3) [of "microtask_runs tooltip_open" 0 "Some False"]
  by (simp add: tooltip_subscribed_fields)

text \<open>
  C6. After \<open>close\<close> has completed, no positioning update occurs any more: the
  subscription to \<open>onStable\<close> is unsubscribed and the popper destroyed. This fails when
  the close callback runs before the promise continuation, as it does for \<open>open()\<close>
  followed in the same turn by \<open>close(false)\<close> or \<open>ngOnDestroy()\<close> with a popup
  service whose close observable emits during \<open>subscribe\<close> when there is no animation.
  The callback finds \<open>_zoneSubscription\<close> undefined, which the \<open>?.\<close> lets pass; the
  continuation then updates the positioning that has been destroyed and subscribes, and
  that subscription stays live while the tooltip stays closed: with the window reference
  \<open>null\<close> and no callback pending, every later \<open>onStable\<close> calls \<open>update\<close>.
\<close>

theorem zone_subscription_outlives_close:
  "windowRef (run tooltip [CallOpen None, CallClose (Some False)]) = None \<and>
   pendingClose (run tooltip [CallOpen None, CallClose (Some False)]) = 0 \<and>
   onStable (run tooltip [CallOpen None, CallClose (Some False)]) = [] \<and>
   microtasks (run tooltip [CallOpen None, CallClose (Some False)]) = 1 \<and>
   new_effects tooltip_open (run tooltip [CallOpen None, CallClose (Some False)]) =
     [RemoveAttribute 7 ''aria-describedby'', PopupClose False, PositioningDestroy, Emit Hidden,
      ChangeDetectorMarkForCheck] \<and>
   windowRef (run tooltip [CallOpen None, CallClose (Some False), MicrotaskRuns]) = None \<and>
   onStable (run tooltip [CallOpen None, CallClose (Some False), MicrotaskRuns]) = [0] \<and>
   new_effects (run tooltip [CallOpen None, CallClose (Some False)])
     (run tooltip [CallOpen None, CallClose (Some False), MicrotaskRuns, ZoneStable, ZoneStable]) =
     [PositioningUpdate, PositioningUpdate, PositioningUpdate]"
  by (simp add: run_def tooltip_open_fields new_effects_def microtask_runs_def zone_stable_def
      close_def close_callback_def unsubscribe_def log_def Let_def tooltip_target)
    (simp add: tooltip_open_def fixture_defs step_defs Let_def)

end
